theory Spec2Isabelle
  imports Complex_Main
begin

section \<open>Values, exceptions and Python containers\<close>

text \<open>
  The program is the Streamlit script \<^verbatim>\<open>ctr_predict_app.py\<close>: it loads a pickled bundle,
  renders a form, and on submission encodes the form values into a one-row feature table
  that it hands to the loaded classifier.

  A cell of the feature table is a Python \<^verbatim>\<open>int\<close> or \<^verbatim>\<open>float\<close>. The script does no
  arithmetic on floats, it only stores them and compares one with two literals, so a float
  is carried as the real number it denotes.
\<close>

datatype cell = IntV int | FloatV real

text \<open>
  Every \<^verbatim>\<open>raise\<close> is a value. \<open>KeyError k\<close> is a missing dictionary key, \<open>AttributeError a\<close>
  a missing attribute, \<open>ValueError\<close> is what \<^verbatim>\<open>LabelEncoder.transform\<close> raises on a label it
  has not seen, \<open>NotFittedError\<close> what it raises before \<^verbatim>\<open>fit\<close>, \<open>IndexError\<close> an index out
  of range, and \<open>OtherError s\<close> anything else (an unreadable file, an exception of the model).
\<close>

datatype error =
    KeyError string
  | AttributeError string
  | ValueError
  | NotFittedError
  | IndexError
  | OtherError string

text \<open>Statements in sequence: the first exception ends the block.\<close>

definition bind_result :: "error + 'a \<Rightarrow> ('a \<Rightarrow> error + 'b) \<Rightarrow> error + 'b" where
  "bind_result m k = (case m of Inl e \<Rightarrow> Inl e | Inr x \<Rightarrow> k x)"

text \<open>\<^verbatim>\<open>try: body except: handler\<close>, with a bare \<^verbatim>\<open>except\<close> that catches everything.\<close>

definition try_except :: "error + 'a \<Rightarrow> error + 'a \<Rightarrow> error + 'a" where
  "try_except body handler = (case body of Inl e \<Rightarrow> handler | Inr x \<Rightarrow> Inr x)"

text \<open>
  A Python \<^verbatim>\<open>dict\<close> whose order matters (it becomes the column order of a data frame) is an
  association list: \<^verbatim>\<open>d[k] = v\<close> overwrites in place or appends.
\<close>

type_synonym input_record = "(string \<times> cell) list"

fun setitem :: "('k \<times> 'v) list \<Rightarrow> 'k \<Rightarrow> 'v \<Rightarrow> ('k \<times> 'v) list" where
  "setitem [] k v = [(k, v)]"
| "setitem ((k', v') # d) k v = (if k' = k then (k, v) # d else (k', v') # setitem d k v)"

text \<open>
  \<^verbatim>\<open>d[k]\<close> and \<^verbatim>\<open>d.get(k, default)\<close> on a dictionary read only by key, and \<^verbatim>\<open>xs[i]\<close> with
  \<open>i \<ge> 0\<close>.
\<close>

definition getitem_dict :: "(string \<rightharpoonup> 'v) \<Rightarrow> string \<Rightarrow> error + 'v" where
  "getitem_dict d k = (case d k of None \<Rightarrow> Inl (KeyError k) | Some v \<Rightarrow> Inr v)"

definition dict_get :: "('k \<rightharpoonup> 'v) \<Rightarrow> 'k \<Rightarrow> 'v \<Rightarrow> 'v" where
  "dict_get d k fallback = (case d k of None \<Rightarrow> fallback | Some v \<Rightarrow> v)"

definition getitem_list :: "'a list \<Rightarrow> nat \<Rightarrow> error + 'a" where
  "getitem_list xs i = (if i < length xs then Inr (xs ! i) else Inl IndexError)"

section \<open>The artifact bundle\<close>

text \<open>
  scikit-learn's \<^verbatim>\<open>LabelEncoder\<close> and the NumPy array it keeps its vocabulary in are not
  code of the repository. An array of strings has the dtype \<^verbatim>\<open>object\<close>, which holds
  strings of any length, or a fixed-width dtype \<^verbatim>\<open><Un\<close>, which holds strings of at most
  \<open>n\<close> characters: \<open>UnicodeArray n xs\<close> is the array \<^verbatim>\<open>np.array(xs, dtype='<Un')\<close>, whose
  elements are those of \<open>xs\<close> cut to \<open>n\<close> characters. \<open>tolist\<close> reads the elements, and
  \<open>astype\<close> casts a string to the dtype of an array, which cuts it silently when the
  dtype is too narrow.
\<close>

datatype ndarray = ObjectArray "string list" | UnicodeArray nat "string list"

fun tolist :: "ndarray \<Rightarrow> string list" where
  "tolist (ObjectArray xs) = xs"
| "tolist (UnicodeArray n xs) = map (take n) xs"

fun astype :: "ndarray \<Rightarrow> string \<Rightarrow> string" where
  "astype (ObjectArray xs) y = y"
| "astype (UnicodeArray n xs) y = take n y"

text \<open>
  A fitted encoder holds its vocabulary in \<^verbatim>\<open>classes_\<close>; an unfitted one has no such
  attribute (\<open>None\<close>); the field is named \<open>classes\<close> here, a name cannot end in an
  underscore. \<^verbatim>\<open>transform(y)\<close> first casts the labels to the dtype of \<^verbatim>\<open>classes_\<close>
  (\<^verbatim>\<open>column_or_1d(y, dtype=self.classes_.dtype)\<close>), then builds the table
  \<^verbatim>\<open>{val: i for i, val in enumerate(classes_)}\<close> and maps each label through it; a label
  outside the table raises \<^verbatim>\<open>ValueError\<close>.
\<close>

record label_encoder =
  classes :: "ndarray option"

definition encoder_table :: "string list \<Rightarrow> (string \<rightharpoonup> nat)" where
  "encoder_table uniques = map_of (rev (zip uniques [0..<length uniques]))"

fun map_to_integer :: "(string \<rightharpoonup> nat) \<Rightarrow> string list \<Rightarrow> error + int list" where
  "map_to_integer t [] = Inr []"
| "map_to_integer t (y # ys) =
     (case t y of
        None \<Rightarrow> Inl ValueError
      | Some i \<Rightarrow> bind_result (map_to_integer t ys) (\<lambda>is. Inr (int i # is)))"

definition transform :: "label_encoder \<Rightarrow> string list \<Rightarrow> error + int list" where
  "transform enc y =
     (case classes enc of
        None \<Rightarrow> Inl NotFittedError
      | Some uniques \<Rightarrow>
          map_to_integer (encoder_table (tolist uniques)) (map (astype uniques) y))"

text \<open>
  A single-row data frame is the list of its columns, in order, each with the row's value.
  The classifier is opaque: \<^verbatim>\<open>predict\<close> returns one label per row, \<^verbatim>\<open>predict_proba\<close> one row of
  class probabilities per row, and either may raise.
\<close>

type_synonym data_frame = "(string \<times> cell) list"

record classifier =
  predict :: "data_frame \<Rightarrow> error + int list"
  predict_proba :: "data_frame \<Rightarrow> error + real list list"

text \<open>
  \<^verbatim>\<open>model_artifacts\<close>, the dictionary that \<^verbatim>\<open>joblib.load\<close> returns: a key that is absent is
  \<open>None\<close>. The feature-importance table is a list of (feature, importance) rows.
\<close>

record artifacts =
  art_model :: "classifier option"
  art_label_encoders :: "(string \<rightharpoonup> label_encoder) option"
  art_frequency_maps :: "(string \<rightharpoonup> (string \<rightharpoonup> cell)) option"
  art_feature_columns :: "string list option"
  art_feature_importance :: "(string \<times> real) list option"

text \<open>The script's globals after a successful load (lines 8 to 12).\<close>

record loaded_bundle =
  model_artifacts :: artifacts
  model :: classifier
  label_encoders :: "string \<rightharpoonup> label_encoder"
  frequency_maps :: "string \<rightharpoonup> (string \<rightharpoonup> cell)"
  feature_columns :: "string list"

definition getitem_artifacts :: "'a option \<Rightarrow> string \<Rightarrow> error + 'a" where
  "getitem_artifacts field k = (case field of None \<Rightarrow> Inl (KeyError k) | Some v \<Rightarrow> Inr v)"

text \<open>The body of the \<^verbatim>\<open>try\<close> of lines 7 to 12; its argument is the outcome of \<^verbatim>\<open>joblib.load\<close>.\<close>

definition load_artifacts :: "error + artifacts \<Rightarrow> error + loaded_bundle" where
  "load_artifacts joblib_load =
     bind_result joblib_load (\<lambda>a.
     bind_result (getitem_artifacts (art_model a) ''model'') (\<lambda>m.
     bind_result (getitem_artifacts (art_label_encoders a) ''label_encoders'') (\<lambda>les.
     bind_result (getitem_artifacts (art_frequency_maps a) ''frequency_maps'') (\<lambda>fms.
     bind_result (getitem_artifacts (art_feature_columns a) ''feature_columns'') (\<lambda>cols.
     Inr \<lparr>model_artifacts = a, model = m, label_encoders = les,
          frequency_maps = fms, feature_columns = cols\<rparr>)))))"

section \<open>The form\<close>

text \<open>The values the widgets of the form return on one run of the script.\<close>

record form =
  age :: int
  gender :: string
  area_income :: real
  daily_time_spent :: real
  daily_internet_usage :: real
  city :: string
  country :: string
  ad_topic :: string
  hour_of_day :: int
  day_of_month :: int
  day_of_week :: int
  month :: int
  submitted :: bool

section \<open>The feature encoder (lines 66 to 102)\<close>

text \<open>\<^verbatim>\<open>frequency_maps[field].get(v, 1)\<close>: the outer subscript may raise, \<^verbatim>\<open>get\<close> does not.\<close>

definition frequency_get :: "(string \<rightharpoonup> (string \<rightharpoonup> cell)) \<Rightarrow> string \<Rightarrow> string \<Rightarrow> error + cell" where
  "frequency_get fms field v =
     bind_result (getitem_dict fms field) (\<lambda>table.
     Inr (dict_get table v (IntV 1)))"

text \<open>
  The three label-encoding blocks differ only in the key they set, the encoder they read
  and the value they encode:
  \<^verbatim>\<open>try: input_data[key] = label_encoders[field].transform([v])[0]  except: input_data[key] = 0\<close>
  \<open>label_transform\<close> is the right-hand side of the assignment in the \<^verbatim>\<open>try\<close>.
\<close>

definition label_transform :: "(string \<rightharpoonup> label_encoder) \<Rightarrow> string \<Rightarrow> string \<Rightarrow> error + int" where
  "label_transform les field v =
     bind_result (getitem_dict les field) (\<lambda>enc.
     bind_result (transform enc [v]) (\<lambda>ks.
     getitem_list ks 0))"

definition encode_label ::
  "(string \<rightharpoonup> label_encoder) \<Rightarrow> string \<Rightarrow> string \<Rightarrow> string \<Rightarrow> input_record \<Rightarrow> error + input_record" where
  "encode_label les key field v d =
     try_except
       (bind_result (label_transform les field v) (\<lambda>k. Inr (setitem d key (IntV k))))
       (Inr (setitem d key (IntV 0)))"

text \<open>What a label-encoding block leaves under its key: the encoder's index, or 0.\<close>

definition label_value :: "(string \<rightharpoonup> label_encoder) \<Rightarrow> string \<Rightarrow> string \<Rightarrow> int" where
  "label_value les field v = (case label_transform les field v of Inl e \<Rightarrow> 0 | Inr k \<Rightarrow> k)"

definition encode_features :: "loaded_bundle \<Rightarrow> form \<Rightarrow> error + input_record" where
  "encode_features b f =
     (let d = [];
          d = setitem d ''DailyTime_Spent_on_Site'' (FloatV (daily_time_spent f));
          d = setitem d ''Age'' (IntV (age f));
          d = setitem d ''Area_Income'' (FloatV (area_income f));
          d = setitem d ''Daily_Internet_Usage'' (FloatV (daily_internet_usage f));
          d = setitem d ''day_of_month'' (IntV (day_of_month f));
          d = setitem d ''hour_of_day'' (IntV (hour_of_day f));
          d = setitem d ''day_of_week'' (IntV (day_of_week f));
          d = setitem d ''month'' (IntV (month f))
      in
      bind_result (frequency_get (frequency_maps b) ''city'' (city f)) (\<lambda>cf.
      let d = setitem d ''City_frequency'' cf in
      bind_result (frequency_get (frequency_maps b) ''country'' (country f)) (\<lambda>nf.
      let d = setitem d ''Country_frequency'' nf in
      bind_result (encode_label (label_encoders b) ''City_encoded'' ''city'' (city f) d) (\<lambda>d.
      bind_result (encode_label (label_encoders b) ''Country_encoded'' ''country'' (country f) d) (\<lambda>d.
      bind_result (encode_label (label_encoders b) ''Ad_Topic_encoded'' ''ad_topic'' (ad_topic f) d) (\<lambda>d.
      Inr (setitem d ''Gender_encoded'' (IntV (if gender f = ''Male'' then 1 else 0)))))))))"

text \<open>The keys the encoder sets, in the order it sets them.\<close>

definition encoder_columns :: "string list" where
  "encoder_columns =
     [''DailyTime_Spent_on_Site'', ''Age'', ''Area_Income'', ''Daily_Internet_Usage'',
      ''day_of_month'', ''hour_of_day'', ''day_of_week'', ''month'',
      ''City_frequency'', ''Country_frequency'',
      ''City_encoded'', ''Country_encoded'', ''Ad_Topic_encoded'', ''Gender_encoded'']"

section \<open>The feature table (lines 105 to 108)\<close>

text \<open>
  \<^verbatim>\<open>pd.DataFrame([input_data])\<close> has one row and the dictionary's keys as columns, in
  insertion order. \<^verbatim>\<open>reindex(columns=..., fill_value=...)\<close> (pandas, not code of the
  repository) builds the frame whose columns are the requested labels in the requested
  order: a label the frame has keeps its value, any other gets the fill value.
\<close>

definition DataFrame :: "input_record \<Rightarrow> data_frame" where
  "DataFrame d = d"

definition reindex :: "data_frame \<Rightarrow> string list \<Rightarrow> cell \<Rightarrow> data_frame" where
  "reindex df columns fill_value =
     map (\<lambda>c. (c, case map_of df c of None \<Rightarrow> fill_value | Some v \<Rightarrow> v)) columns"

definition feature_table :: "loaded_bundle \<Rightarrow> form \<Rightarrow> error + data_frame" where
  "feature_table b f =
     bind_result (encode_features b f) (\<lambda>input_data.
     let input_df = DataFrame input_data in
     Inr (reindex input_df (feature_columns b) (IntV 0)))"

section \<open>Inference (lines 111 and 112)\<close>

definition infer :: "loaded_bundle \<Rightarrow> form \<Rightarrow> error + (int \<times> real)" where
  "infer b f =
     bind_result (feature_table b f) (\<lambda>input_df.
     bind_result (predict (model b) input_df) (\<lambda>ys.
     bind_result (getitem_list ys 0) (\<lambda>prediction.
     bind_result (predict_proba (model b) input_df) (\<lambda>ps.
     bind_result (getitem_list ps 0) (\<lambda>row.
     bind_result (getitem_list row 1) (\<lambda>probability.
     Inr (prediction, probability)))))))"

section \<open>What the page shows\<close>

text \<open>
  A run of the script leaves the list of the elements it rendered, in the order of the
  calls. Layout columns only place elements and are not recorded. The emoji that opens
  some of the script's messages is left out of the text; nothing else of a message is
  changed. \<^verbatim>\<open>st.metric\<close> keeps the probability itself, the script shows it formatted as a
  percentage. \<open>StErrorException s e\<close> is \<^verbatim>\<open>st.error(s + str(e))\<close>.
\<close>

datatype widget =
    StSuccess string
  | StError string
  | StErrorException string error
  | StWarning string
  | StInfo string
  | StTitle string
  | StMarkdown string
  | StSubheader string
  | StMetric string real
  | StNumberInput string cell cell cell
  | StSelectbox string "string list"
  | StSlider string int int int
  | StFormSubmitButton string
  | StForm string "widget list"
  | StExpander string "widget list"
  | StDataframe "(string \<times> real) list"

subsection \<open>Input collection (lines 22 to 62)\<close>

text \<open>\<^verbatim>\<open>list(label_encoders[field].classes_)\<close>: the subscript and the attribute may raise.\<close>

definition read_classes :: "(string \<rightharpoonup> label_encoder) \<Rightarrow> string \<Rightarrow> error + string list" where
  "read_classes les field =
     bind_result (getitem_dict les field) (\<lambda>enc.
     case classes enc of
       None \<Rightarrow> Inl (AttributeError ''classes_'')
     | Some cs \<Rightarrow> Inr (tolist cs))"

text \<open>The known vocabulary of a field: empty when there is none to read.\<close>

definition vocabulary :: "(string \<rightharpoonup> label_encoder) \<Rightarrow> string \<Rightarrow> string list" where
  "vocabulary les field = (case read_classes les field of Inl e \<Rightarrow> [] | Inr cs \<Rightarrow> cs)"

definition available_options ::
  "(string \<rightharpoonup> label_encoder) \<Rightarrow> error + (string list \<times> string list \<times> string list)" where
  "available_options les =
     try_except
       (bind_result (read_classes les ''city'') (\<lambda>available_cities.
        bind_result (read_classes les ''country'') (\<lambda>available_countries.
        bind_result (read_classes les ''ad_topic'') (\<lambda>available_ad_topics.
        Inr (available_cities, available_countries, available_ad_topics)))))
       (Inr ([''New York'', ''Los Angeles'', ''Chicago''],
             [''United States'', ''Canada'', ''United Kingdom''],
             [''Technology'', ''Fashion'', ''Sports'']))"

definition form_widgets :: "string list \<Rightarrow> string list \<Rightarrow> string list \<Rightarrow> widget list" where
  "form_widgets available_cities available_countries available_ad_topics =
     [StSubheader ''User Demographics'',
      StNumberInput ''Age'' (IntV 18) (IntV 100) (IntV 30),
      StSelectbox ''Gender'' [''Male'', ''Female''],
      StNumberInput ''Area Income ($)'' (FloatV 0) (FloatV 200000) (FloatV 50000),
      StSubheader ''User Behavior'',
      StNumberInput ''Daily Time Spent on Site (minutes)'' (FloatV 0) (FloatV 500) (FloatV 50),
      StNumberInput ''Daily Internet Usage (minutes)'' (FloatV 0) (FloatV 500) (FloatV 150),
      StSubheader ''Location & Content'',
      StSelectbox ''City'' available_cities,
      StSelectbox ''Country'' available_countries,
      StSelectbox ''Ad Topic'' available_ad_topics,
      StSlider ''Hour of Day'' 0 23 12,
      StSlider ''Day of Month'' 1 31 15,
      StSlider ''Day of Week (0=Monday)'' 0 6 3,
      StSlider ''Month'' 1 12 6,
      StFormSubmitButton ''Predict CTR'']"

definition input_form :: "(string \<rightharpoonup> label_encoder) \<Rightarrow> error + widget list" where
  "input_form les =
     bind_result (available_options les) (\<lambda>(available_cities, available_countries, available_ad_topics).
     Inr [StForm ''prediction_form''
            (form_widgets available_cities available_countries available_ad_topics)])"

subsection \<open>Presentation (lines 115 to 144)\<close>

definition excellent_targeting :: widget where
  "excellent_targeting =
     StSuccess ''**Excellent targeting!** This user profile shows high engagement potential.''"

definition moderate_targeting :: widget where
  "moderate_targeting =
     StWarning ''**Moderate targeting.** Consider optimizing ad content or timing.''"

definition poor_targeting :: widget where
  "poor_targeting =
     StError ''**Poor targeting.** This user profile is unlikely to engage.''"

text \<open>
  Lines 130 to 135. A float compares with the literal \<^verbatim>\<open>0.7\<close> as the real number it denotes
  compares with \<open>7/10\<close>: the literal denotes the float nearest to \<open>7/10\<close>, which lies just
  below it, and no float lies between the two; \<^verbatim>\<open>0.5\<close> is exact.
\<close>

definition insight :: "real \<Rightarrow> widget" where
  "insight probability =
     (if probability > 0.7 then excellent_targeting
      else if probability > 0.5 then moderate_targeting
      else poor_targeting)"

definition is_insight :: "widget \<Rightarrow> bool" where
  "is_insight w = (w = excellent_targeting \<or> w = moderate_targeting \<or> w = poor_targeting)"

text \<open>
  The block under \<^verbatim>\<open>if submitted\<close>: the \<^verbatim>\<open>try\<close> first builds the feature table and asks the
  classifier (\<open>infer\<close>), then renders; \<^verbatim>\<open>except Exception as e\<close> renders the two messages
  of lines 143 and 144.
\<close>

definition on_submit :: "loaded_bundle \<Rightarrow> form \<Rightarrow> widget list" where
  "on_submit b f =
     (case infer b f of
        Inl e \<Rightarrow>
          [StErrorException ''Error making prediction: '' e,
           StInfo ''Please check your input values and try again.'']
      | Inr (prediction, probability) \<Rightarrow>
          [StSuccess ''Prediction completed!'',
           (if prediction = 1 then StSuccess ''**WILL CLICK**''
            else StWarning ''**WON'T CLICK**''),
           StMetric ''Click Probability'' probability,
           StSubheader ''Insights'',
           insight probability,
           StExpander ''Feature Importance''
             (case art_feature_importance (model_artifacts b) of
                None \<Rightarrow> []
              | Some feature_importance \<Rightarrow> [StDataframe (take 10 feature_importance)])])"

section \<open>The script\<close>

text \<open>
  One run of the script, top to bottom. \<^verbatim>\<open>joblib.load\<close> is called once, at line 8, and the
  script has no loop: the outcome of that one call is the argument \<open>joblib_load\<close>.
  \<open>Stopped\<close> is \<^verbatim>\<open>st.stop()\<close>, \<open>Uncaught e\<close> an exception that no handler of the script
  catches.
\<close>

datatype outcome = Finished | Stopped | Uncaught error

definition load_error_message :: string where
  "load_error_message = ''Could not load model artifacts. Please check the file path.''"

definition page_header :: "widget list" where
  "page_header =
     [StSuccess ''Model loaded successfully!'',
      StTitle ''Ad Click-Through Rate (CTR) Prediction'',
      StMarkdown ''Predict whether a user will click on an advertisement'']"

definition script :: "error + artifacts \<Rightarrow> form \<Rightarrow> widget list \<times> outcome" where
  "script joblib_load f =
     (case load_artifacts joblib_load of
        Inl e \<Rightarrow> ([StError load_error_message], Stopped)
      | Inr b \<Rightarrow>
          (case input_form (label_encoders b) of
             Inl e \<Rightarrow> (page_header, Uncaught e)
           | Inr form_elements \<Rightarrow>
               (page_header @ form_elements @ (if submitted f then on_submit b f else []),
                Finished)))"

section \<open>Reading a feature, and concrete bundles\<close>

text \<open>
  The label as the encoder of a field looks it up: cast to the dtype of its \<^verbatim>\<open>classes_\<close>,
  and unchanged when there is no such array.
\<close>

definition cast_label :: "(string \<rightharpoonup> label_encoder) \<Rightarrow> string \<Rightarrow> string \<Rightarrow> string" where
  "cast_label les field v =
     (case les field of
        None \<Rightarrow> v
      | Some enc \<Rightarrow> (case classes enc of None \<Rightarrow> v | Some uniques \<Rightarrow> astype uniques v))"

text \<open>The value the encoder gave a feature; \<open>None\<close> when it raised or did not set the key.\<close>

definition feature :: "error + input_record \<Rightarrow> string \<Rightarrow> cell option" where
  "feature r key = (case r of Inl e \<Rightarrow> None | Inr d \<Rightarrow> map_of d key)"

text \<open>
  The example of the specification: New York has index 2 and frequency 120, United States
  index 0 and frequency 300, Technology index 1. The encoders were fitted on columns of
  dtype \<^verbatim>\<open>object\<close>. The column list asks for one column, \<open>is_weekend\<close>, that the encoder
  does not set.
\<close>

definition example_form :: form where
  "example_form =
     \<lparr>age = 30, gender = ''Male'', area_income = 50000, daily_time_spent = 50,
      daily_internet_usage = 150, city = ''New York'', country = ''United States'',
      ad_topic = ''Technology'', hour_of_day = 12, day_of_month = 15, day_of_week = 3,
      month = 6, submitted = True\<rparr>"

definition example_classifier :: classifier where
  "example_classifier =
     \<lparr>predict = (\<lambda>df. Inr [1]), predict_proba = (\<lambda>df. Inr [[0.2, 0.8]])\<rparr>"

definition example_label_encoders :: "string \<rightharpoonup> label_encoder" where
  "example_label_encoders =
     [''city'' \<mapsto> \<lparr>classes = Some (ObjectArray [''Chicago'', ''Los Angeles'', ''New York''])\<rparr>,
      ''country'' \<mapsto> \<lparr>classes = Some (ObjectArray [''United States'', ''Vietnam''])\<rparr>,
      ''ad_topic'' \<mapsto> \<lparr>classes = Some (ObjectArray [''Sports'', ''Technology''])\<rparr>]"

definition example_frequency_maps :: "string \<rightharpoonup> (string \<rightharpoonup> cell)" where
  "example_frequency_maps =
     [''city'' \<mapsto> [''Chicago'' \<mapsto> IntV 80, ''New York'' \<mapsto> IntV 120],
      ''country'' \<mapsto> [''United States'' \<mapsto> IntV 300]]"

definition example_feature_columns :: "string list" where
  "example_feature_columns =
     [''DailyTime_Spent_on_Site'', ''Age'', ''Area_Income'', ''Daily_Internet_Usage'',
      ''Gender_encoded'', ''City_encoded'', ''Country_encoded'', ''Ad_Topic_encoded'',
      ''City_frequency'', ''Country_frequency'', ''hour_of_day'', ''day_of_week'',
      ''day_of_month'', ''month'', ''is_weekend'']"

definition example_artifacts :: artifacts where
  "example_artifacts =
     \<lparr>art_model = Some example_classifier,
      art_label_encoders = Some example_label_encoders,
      art_frequency_maps = Some example_frequency_maps,
      art_feature_columns = Some example_feature_columns,
      art_feature_importance = None\<rparr>"

definition example_bundle :: loaded_bundle where
  "example_bundle =
     \<lparr>model_artifacts = example_artifacts, model = example_classifier,
      label_encoders = example_label_encoders, frequency_maps = example_frequency_maps,
      feature_columns = example_feature_columns\<rparr>"

definition example_record :: input_record where
  "example_record =
     [(''DailyTime_Spent_on_Site'', FloatV 50), (''Age'', IntV 30),
      (''Area_Income'', FloatV 50000), (''Daily_Internet_Usage'', FloatV 150),
      (''day_of_month'', IntV 15), (''hour_of_day'', IntV 12),
      (''day_of_week'', IntV 3), (''month'', IntV 6),
      (''City_frequency'', IntV 120), (''Country_frequency'', IntV 300),
      (''City_encoded'', IntV 2), (''Country_encoded'', IntV 0),
      (''Ad_Topic_encoded'', IntV 1), (''Gender_encoded'', IntV 1)]"

text \<open>
  The mappings the example states, as the calls the encoder makes: what the three
  encoders return for the example's values, and what the two frequency lookups return.
\<close>

definition stated_mappings :: "loaded_bundle \<Rightarrow> bool" where
  "stated_mappings b \<longleftrightarrow>
     label_transform (label_encoders b) ''city'' ''New York'' = Inr 2 \<and>
     label_transform (label_encoders b) ''country'' ''United States'' = Inr 0 \<and>
     label_transform (label_encoders b) ''ad_topic'' ''Technology'' = Inr 1 \<and>
     frequency_get (frequency_maps b) ''city'' ''New York'' = Inr (IntV 120) \<and>
     frequency_get (frequency_maps b) ''country'' ''United States'' = Inr (IntV 300)"

text \<open>
  A bundle whose encoders and frequency tables disagree: it has no encoder for the ad
  topic, so the form offers the hardcoded lists, and its city encoder does not know
  New York although its city frequency table does. Its encoders were fitted on lists of
  strings, so their arrays are as wide as their longest class.
\<close>

definition partial_label_encoders :: "string \<rightharpoonup> label_encoder" where
  "partial_label_encoders =
     [''city'' \<mapsto> \<lparr>classes = Some (UnicodeArray 7 [''Boston'', ''Chicago''])\<rparr>,
      ''country'' \<mapsto> \<lparr>classes = Some (UnicodeArray 13 [''Canada'', ''United States''])\<rparr>]"

definition partial_artifacts :: artifacts where
  "partial_artifacts = example_artifacts\<lparr>art_label_encoders := Some partial_label_encoders\<rparr>"

definition partial_bundle :: loaded_bundle where
  "partial_bundle =
     example_bundle\<lparr>model_artifacts := partial_artifacts,
                    label_encoders := partial_label_encoders\<rparr>"

text \<open>
  A bundle with no city encoder, so the form offers the hardcoded lists, and with
  fixed-width encoders for the country and the ad topic, fitted on short names: the
  hardcoded United Kingdom and Technology are not among their classes, but cut to the
  width of the arrays they are.
\<close>

definition narrow_label_encoders :: "string \<rightharpoonup> label_encoder" where
  "narrow_label_encoders =
     [''country'' \<mapsto> \<lparr>classes = Some (UnicodeArray 6 [''Canada'', ''United''])\<rparr>,
      ''ad_topic'' \<mapsto> \<lparr>classes = Some (UnicodeArray 4 [''Auto'', ''Tech''])\<rparr>]"

definition narrow_artifacts :: artifacts where
  "narrow_artifacts = example_artifacts\<lparr>art_label_encoders := Some narrow_label_encoders\<rparr>"

definition narrow_bundle :: loaded_bundle where
  "narrow_bundle =
     example_bundle\<lparr>model_artifacts := narrow_artifacts,
                    label_encoders := narrow_label_encoders\<rparr>"

text \<open>
  The example bundle with another classifier in it: one that answers every table with the
  label \<open>y\<close> and the probability \<open>p\<close> of the positive class.
\<close>

definition with_classifier :: "classifier \<Rightarrow> loaded_bundle" where
  "with_classifier c =
     example_bundle\<lparr>model_artifacts := example_artifacts\<lparr>art_model := Some c\<rparr>,
                    model := c\<rparr>"

definition fixed_classifier :: "int \<Rightarrow> real \<Rightarrow> classifier" where
  "fixed_classifier y p =
     \<lparr>predict = (\<lambda>df. Inr [y]), predict_proba = (\<lambda>df. Inr [[1 - p, p]])\<rparr>"

section \<open>The classifier in the bundle\<close>




section \<open>Facts about the model\<close>

subsection \<open>The label encoder\<close>

lemma encoder_table_SomeD:
  assumes "encoder_table cs y = Some k"
  shows "k < length cs \<and> cs ! k = y"
proof -
  from assms have "(y, k) \<in> set (rev (zip cs [0..<length cs]))"
    unfolding encoder_table_def by (rule map_of_SomeD)
  then have "(y, k) \<in> set (zip cs [0..<length cs])" by simp
  then obtain i where "i < length cs" "cs ! i = y" "[0..<length cs] ! i = k"
    by (auto simp: in_set_zip)
  then show ?thesis by simp
qed

lemma encoder_table_None: "encoder_table cs y = None \<longleftrightarrow> y \<notin> set cs"
proof -
  have "map fst (zip cs [0..<length cs]) = cs" by simp
  then have "set (map fst (zip cs [0..<length cs])) = set cs" by simp
  then have "fst ` set (zip cs [0..<length cs]) = set cs" by (simp only: set_map)
  then show ?thesis unfolding encoder_table_def by (simp add: map_of_eq_None_iff)
qed

lemma encoder_table_Some:
  assumes "y \<in> set cs"
  shows "\<exists>k. encoder_table cs y = Some k \<and> k < length cs \<and> cs ! k = y"
proof -
  from assms obtain k where "encoder_table cs y = Some k"
    using encoder_table_None [of cs y] by (cases "encoder_table cs y") auto
  with encoder_table_SomeD [of cs y k] show ?thesis by blast
qed

lemma label_transform_eq:
  "label_transform les field v =
     (case les field of
        None \<Rightarrow> Inl (KeyError field)
      | Some enc \<Rightarrow>
          (case classes enc of
             None \<Rightarrow> Inl NotFittedError
           | Some cs \<Rightarrow>
               (case encoder_table (tolist cs) (astype cs v) of
                  None \<Rightarrow> Inl ValueError
                | Some k \<Rightarrow> Inr (int k))))"
  by (simp add: label_transform_def bind_result_def getitem_dict_def transform_def
      getitem_list_def split: option.splits)

lemma vocabulary_eq:
  "vocabulary les field =
     (case les field of
        None \<Rightarrow> []
      | Some enc \<Rightarrow> (case classes enc of None \<Rightarrow> [] | Some cs \<Rightarrow> tolist cs))"
  by (simp add: vocabulary_def read_classes_def bind_result_def getitem_dict_def
      split: option.splits)

lemma astype_tolist: "v \<in> set (tolist cs) \<Longrightarrow> astype cs v = v"
  by (cases cs) auto

lemma astype_short: "astype (UnicodeArray n xs) v = v \<longleftrightarrow> length v \<le> n"
  by (simp add: take_all_iff)

lemma cast_label_seen:
  "v \<in> set (vocabulary les field) \<Longrightarrow> cast_label les field v = v"
  by (auto simp: vocabulary_eq cast_label_def astype_tolist split: option.splits)

lemma label_transform_unseen:
  assumes "cast_label les field v \<notin> set (vocabulary les field)"
  shows "\<exists>e. label_transform les field v = Inl e"
  using assms
  by (auto simp: label_transform_eq vocabulary_eq cast_label_def encoder_table_None [symmetric]
      split: option.splits)

lemma label_transform_seen:
  assumes "v \<in> set (vocabulary les field)"
  shows "\<exists>k. label_transform les field v = Inr (int k)
           \<and> encoder_table (vocabulary les field) v = Some k
           \<and> k < length (vocabulary les field) \<and> vocabulary les field ! k = v"
proof -
  from assms obtain enc where e1: "les field = Some enc"
    by (cases "les field") (auto simp: vocabulary_eq)
  with assms obtain cs where e2: "classes enc = Some cs"
    by (cases "classes enc") (auto simp: vocabulary_eq)
  from e1 e2 have voc: "vocabulary les field = tolist cs" by (simp add: vocabulary_eq)
  with assms have same: "astype cs v = v" by (simp add: astype_tolist)
  from voc assms obtain k where k: "encoder_table (tolist cs) v = Some k"
      "k < length (tolist cs)" "tolist cs ! k = v"
    using encoder_table_Some [of v "tolist cs"] by auto
  with e1 e2 voc same show ?thesis by (simp add: label_transform_eq)
qed

lemma label_value_unseen:
  "cast_label les field v \<notin> set (vocabulary les field) \<Longrightarrow> label_value les field v = 0"
  using label_transform_unseen [of les field v] by (auto simp: label_value_def)

lemma encode_label_eq:
  "encode_label les key field v d = Inr (setitem d key (IntV (label_value les field v)))"
  by (simp add: encode_label_def label_value_def try_except_def bind_result_def
      split: sum.splits)

subsection \<open>The encoder, in closed form\<close>

lemma encode_features_eq:
  "encode_features b f =
     (case frequency_maps b ''city'' of
        None \<Rightarrow> Inl (KeyError ''city'')
      | Some fc \<Rightarrow>
          (case frequency_maps b ''country'' of
             None \<Rightarrow> Inl (KeyError ''country'')
           | Some fn \<Rightarrow>
               Inr [(''DailyTime_Spent_on_Site'', FloatV (daily_time_spent f)),
                    (''Age'', IntV (age f)),
                    (''Area_Income'', FloatV (area_income f)),
                    (''Daily_Internet_Usage'', FloatV (daily_internet_usage f)),
                    (''day_of_month'', IntV (day_of_month f)),
                    (''hour_of_day'', IntV (hour_of_day f)),
                    (''day_of_week'', IntV (day_of_week f)),
                    (''month'', IntV (month f)),
                    (''City_frequency'', dict_get fc (city f) (IntV 1)),
                    (''Country_frequency'', dict_get fn (country f) (IntV 1)),
                    (''City_encoded'', IntV (label_value (label_encoders b) ''city'' (city f))),
                    (''Country_encoded'', IntV (label_value (label_encoders b) ''country'' (country f))),
                    (''Ad_Topic_encoded'', IntV (label_value (label_encoders b) ''ad_topic'' (ad_topic f))),
                    (''Gender_encoded'', IntV (if gender f = ''Male'' then 1 else 0))]))"
  by (simp add: encode_features_def encode_label_eq frequency_get_def
      getitem_dict_def bind_result_def Let_def split: option.splits)

lemma encode_features_keys:
  "encode_features b f = Inr d \<Longrightarrow> map fst d = encoder_columns"
  by (auto simp: encode_features_eq encoder_columns_def split: option.splits)

lemma encode_features_total:
  "frequency_maps b ''city'' = Some fc \<Longrightarrow> frequency_maps b ''country'' = Some fn
     \<Longrightarrow> \<exists>d. encode_features b f = Inr d"
  by (simp add: encode_features_eq)

lemma encode_features_cong:
  "frequency_maps b' = frequency_maps b \<Longrightarrow> label_encoders b' = label_encoders b
     \<Longrightarrow> encode_features b' f = encode_features b f"
  by (simp add: encode_features_eq split: option.splits)

subsection \<open>Reindexing\<close>

lemma reindex_columns: "map fst (reindex df columns fill_value) = columns"
  by (simp add: reindex_def comp_def)

lemma reindex_length: "length (reindex df columns fill_value) = length columns"
  by (simp add: reindex_def)

lemma reindex_nth:
  "i < length columns \<Longrightarrow>
     reindex df columns fill_value ! i =
       (columns ! i, case map_of df (columns ! i) of None \<Rightarrow> fill_value | Some v \<Rightarrow> v)"
  by (simp add: reindex_def)

lemma feature_table_eq:
  "feature_table b f =
     (case encode_features b f of
        Inl e \<Rightarrow> Inl e
      | Inr d \<Rightarrow> Inr (reindex d (feature_columns b) (IntV 0)))"
  by (simp add: feature_table_def bind_result_def DataFrame_def Let_def)


lemma feature_table_cong:
  "frequency_maps b' = frequency_maps b \<Longrightarrow> label_encoders b' = label_encoders b
     \<Longrightarrow> feature_columns b' = feature_columns b
     \<Longrightarrow> feature_table b' f = feature_table b f"
  using encode_features_cong [of b' b f] by (simp add: feature_table_eq split: sum.splits)

subsection \<open>The concrete bundles\<close>

lemmas example_defs =
  example_bundle_def example_artifacts_def example_classifier_def example_label_encoders_def
  example_frequency_maps_def example_feature_columns_def example_form_def

lemmas eval_defs =
  label_value_def label_transform_eq vocabulary_eq cast_label_def encoder_table_def dict_get_def

lemma example_encoding: "encode_features example_bundle example_form = Inr example_record"
  by (simp add: encode_features_eq example_defs eval_defs example_record_def)

lemma example_stated: "stated_mappings example_bundle"
  by (simp add: stated_mappings_def example_defs eval_defs frequency_get_def
      getitem_dict_def bind_result_def)

lemma example_table:
  "feature_table example_bundle example_form =
     Inr [(''DailyTime_Spent_on_Site'', FloatV 50), (''Age'', IntV 30),
          (''Area_Income'', FloatV 50000), (''Daily_Internet_Usage'', FloatV 150),
          (''Gender_encoded'', IntV 1), (''City_encoded'', IntV 2),
          (''Country_encoded'', IntV 0), (''Ad_Topic_encoded'', IntV 1),
          (''City_frequency'', IntV 120), (''Country_frequency'', IntV 300),
          (''hour_of_day'', IntV 12), (''day_of_week'', IntV 3),
          (''day_of_month'', IntV 15), (''month'', IntV 6), (''is_weekend'', IntV 0)]"
proof -
  have "feature_columns example_bundle = example_feature_columns"
    by (simp add: example_bundle_def)
  then show ?thesis
    by (simp add: feature_table_eq example_encoding example_record_def reindex_def
        example_feature_columns_def)
qed



section \<open>The claims\<close>

text \<open>
  C1. The feature table is built whenever the bundle has the two frequency tables the
  encoder reads. Whenever it is built, its columns are exactly those of
  \<open>feature_columns\<close>, in that order; each column holds the value the encoder set under
  that name, and a column the encoder did not set holds 0.
\<close>

theorem feature_table_reindexed:
  "(frequency_maps b ''city'' \<noteq> None \<and> frequency_maps b ''country'' \<noteq> None \<longrightarrow>
      (\<exists>df. feature_table b f = Inr df)) \<and>
   (\<forall>df. feature_table b f = Inr df \<longrightarrow>
      map fst df = feature_columns b \<and>
      (\<exists>d. encode_features b f = Inr d \<and> map fst d = encoder_columns \<and>
           (\<forall>i<length df. snd (df ! i) =
              (case map_of d (fst (df ! i)) of None \<Rightarrow> IntV 0 | Some v \<Rightarrow> v))) \<and>
      (\<forall>i<length df. fst (df ! i) \<notin> set encoder_columns \<longrightarrow> snd (df ! i) = IntV 0))"
proof -
  have built: "\<exists>df. feature_table b f = Inr df"
    if "frequency_maps b ''city'' \<noteq> None \<and> frequency_maps b ''country'' \<noteq> None"
  proof -
    from that obtain fc fn where "frequency_maps b ''city'' = Some fc"
      "frequency_maps b ''country'' = Some fn" by blast
    then obtain d where "encode_features b f = Inr d"
      using encode_features_total by blast
    then show ?thesis by (simp add: feature_table_eq)
  qed
  have shape: "map fst df = feature_columns b \<and>
      (\<exists>d. encode_features b f = Inr d \<and> map fst d = encoder_columns \<and>
           (\<forall>i<length df. snd (df ! i) =
              (case map_of d (fst (df ! i)) of None \<Rightarrow> IntV 0 | Some v \<Rightarrow> v))) \<and>
      (\<forall>i<length df. fst (df ! i) \<notin> set encoder_columns \<longrightarrow> snd (df ! i) = IntV 0)"
    if table: "feature_table b f = Inr df" for df
  proof -
    from table obtain d where d: "encode_features b f = Inr d"
      and df: "df = reindex d (feature_columns b) (IntV 0)"
      by (auto simp: feature_table_eq split: sum.splits)
    have keys: "map fst d = encoder_columns" using d by (rule encode_features_keys)
    have cols: "map fst df = feature_columns b" by (simp add: df reindex_columns)
    have vals: "snd (df ! i) = (case map_of d (fst (df ! i)) of None \<Rightarrow> IntV 0 | Some v \<Rightarrow> v)"
      if "i < length df" for i
      using that by (simp add: df reindex_length reindex_nth)
    have fill: "snd (df ! i) = IntV 0"
      if "i < length df" and "fst (df ! i) \<notin> set encoder_columns" for i
    proof -
      from that(2) keys have "fst (df ! i) \<notin> fst ` set d" by (metis set_map)
      then have "map_of d (fst (df ! i)) = None" by (simp add: map_of_eq_None_iff)
      with vals [OF that(1)] show ?thesis by simp
    qed
    from cols d keys vals fill show ?thesis by blast
  qed
  from built shape show ?thesis by blast
qed

theorem feature_table_reindexed_witness:
  "\<exists>df. feature_table example_bundle example_form = Inr df \<and>
        map fst df = example_feature_columns \<and>
        fst (df ! 14) = ''is_weekend'' \<and> snd (df ! 14) = IntV 0"
proof -
  note t = feature_table_reindexed [of example_bundle example_form]
  have "frequency_maps example_bundle ''city'' \<noteq> None \<and>
      frequency_maps example_bundle ''country'' \<noteq> None"
    by (simp add: example_bundle_def example_frequency_maps_def)
  with t obtain df where df: "feature_table example_bundle example_form = Inr df"
    by blast
  with t have cols: "map fst df = feature_columns example_bundle"
    and fill: "\<forall>i<length df. fst (df ! i) \<notin> set encoder_columns \<longrightarrow> snd (df ! i) = IntV 0"
    by blast+
  from cols have cols': "map fst df = example_feature_columns"
    by (simp add: example_bundle_def)
  then have "length (map fst df) = 15" by (simp add: example_feature_columns_def)
  then have len: "14 < length df" by simp
  then have "fst (df ! 14) = map fst df ! 14" by simp
  then have name: "fst (df ! 14) = ''is_weekend''"
    by (simp add: cols' example_feature_columns_def)
  then have "fst (df ! 14) \<notin> set encoder_columns" by (simp add: encoder_columns_def)
  with fill len have "snd (df ! 14) = IntV 0" by blast
  with df cols' name show ?thesis by blast
qed

text \<open>
  C3. A city or country that is in the vocabulary of its label encoder is encoded as the
  index the encoder's table gives it, which is a position of the value in the vocabulary;
  and a value that the frequency table holds gets the count stored there.
\<close>

theorem known_category_encoded:
  assumes "encode_features b f = Inr d"
  shows "(city f \<in> set (vocabulary (label_encoders b) ''city'') \<longrightarrow>
            (\<exists>k. encoder_table (vocabulary (label_encoders b) ''city'') (city f) = Some k \<and>
                 label_transform (label_encoders b) ''city'' (city f) = Inr (int k) \<and>
                 vocabulary (label_encoders b) ''city'' ! k = city f \<and>
                 map_of d ''City_encoded'' = Some (IntV (int k)))) \<and>
         (country f \<in> set (vocabulary (label_encoders b) ''country'') \<longrightarrow>
            (\<exists>k. encoder_table (vocabulary (label_encoders b) ''country'') (country f) = Some k \<and>
                 label_transform (label_encoders b) ''country'' (country f) = Inr (int k) \<and>
                 vocabulary (label_encoders b) ''country'' ! k = country f \<and>
                 map_of d ''Country_encoded'' = Some (IntV (int k)))) \<and>
         (\<forall>table n. frequency_maps b ''city'' = Some table \<and> table (city f) = Some n \<longrightarrow>
            map_of d ''City_frequency'' = Some n) \<and>
         (\<forall>table n. frequency_maps b ''country'' = Some table \<and> table (country f) = Some n \<longrightarrow>
            map_of d ''Country_frequency'' = Some n)"
proof -
  have enc: "\<exists>k. encoder_table (vocabulary les field) v = Some k \<and>
                 label_transform les field v = Inr (int k) \<and>
                 vocabulary les field ! k = v \<and> label_value les field v = int k"
    if "v \<in> set (vocabulary les field)" for les field v
    using label_transform_seen [OF that] by (auto simp: label_value_def)
  from assms obtain fc fn where tables:
    "frequency_maps b ''city'' = Some fc" "frequency_maps b ''country'' = Some fn"
    by (auto simp: encode_features_eq split: option.splits)
  with assms have ce: "map_of d ''City_encoded'' =
      Some (IntV (label_value (label_encoders b) ''city'' (city f)))"
    and ne: "map_of d ''Country_encoded'' =
      Some (IntV (label_value (label_encoders b) ''country'' (country f)))"
    and cf: "map_of d ''City_frequency'' = Some (dict_get fc (city f) (IntV 1))"
    and nf: "map_of d ''Country_frequency'' = Some (dict_get fn (country f) (IntV 1))"
    by (auto simp: encode_features_eq)
  have 1: "\<exists>k. encoder_table (vocabulary (label_encoders b) ''city'') (city f) = Some k \<and>
                 label_transform (label_encoders b) ''city'' (city f) = Inr (int k) \<and>
                 vocabulary (label_encoders b) ''city'' ! k = city f \<and>
                 map_of d ''City_encoded'' = Some (IntV (int k))"
    if "city f \<in> set (vocabulary (label_encoders b) ''city'')"
    using enc [OF that] ce by auto
  have 2: "\<exists>k. encoder_table (vocabulary (label_encoders b) ''country'') (country f) = Some k \<and>
                 label_transform (label_encoders b) ''country'' (country f) = Inr (int k) \<and>
                 vocabulary (label_encoders b) ''country'' ! k = country f \<and>
                 map_of d ''Country_encoded'' = Some (IntV (int k))"
    if "country f \<in> set (vocabulary (label_encoders b) ''country'')"
    using enc [OF that] ne by auto
  have 3: "map_of d ''City_frequency'' = Some n"
    if "frequency_maps b ''city'' = Some table \<and> table (city f) = Some n" for table n
    using that tables cf by (simp add: dict_get_def)
  have 4: "map_of d ''Country_frequency'' = Some n"
    if "frequency_maps b ''country'' = Some table \<and> table (country f) = Some n" for table n
    using that tables nf by (simp add: dict_get_def)
  from 1 2 3 4 show ?thesis by blast
qed

theorem known_category_encoded_witness:
  "city example_form \<in> set (vocabulary (label_encoders example_bundle) ''city'') \<and>
   country example_form \<in> set (vocabulary (label_encoders example_bundle) ''country'') \<and>
   feature (encode_features example_bundle example_form) ''City_encoded'' = Some (IntV 2) \<and>
   feature (encode_features example_bundle example_form) ''Country_encoded'' = Some (IntV 0) \<and>
   feature (encode_features example_bundle example_form) ''City_frequency'' = Some (IntV 120) \<and>
   feature (encode_features example_bundle example_form) ''Country_frequency'' = Some (IntV 300)"
proof -
  have voc: "city example_form \<in> set (vocabulary (label_encoders example_bundle) ''city'')"
       "country example_form \<in> set (vocabulary (label_encoders example_bundle) ''country'')"
    by (simp_all add: example_defs vocabulary_eq)
  have tables:
    "frequency_maps example_bundle ''city'' = Some [''Chicago'' \<mapsto> IntV 80, ''New York'' \<mapsto> IntV 120]
       \<and> [''Chicago'' \<mapsto> IntV 80, ''New York'' \<mapsto> IntV 120] (city example_form) = Some (IntV 120)"
    "frequency_maps example_bundle ''country'' = Some [''United States'' \<mapsto> IntV 300]
       \<and> [''United States'' \<mapsto> IntV 300] (country example_form) = Some (IntV 300)"
    by (simp_all add: example_defs)
  note t = known_category_encoded [OF example_encoding]
  from t voc(1) obtain k where
    "encoder_table (vocabulary (label_encoders example_bundle) ''city'') (city example_form) = Some k"
    "map_of example_record ''City_encoded'' = Some (IntV (int k))"
    by blast
  then have c: "map_of example_record ''City_encoded'' = Some (IntV 2)"
    by (simp add: example_defs eval_defs)
  from t voc(2) obtain j where
    "encoder_table (vocabulary (label_encoders example_bundle) ''country'') (country example_form) = Some j"
    "map_of example_record ''Country_encoded'' = Some (IntV (int j))"
    by blast
  then have n: "map_of example_record ''Country_encoded'' = Some (IntV 0)"
    by (simp add: example_defs eval_defs)
  from t tables(1) have cf: "map_of example_record ''City_frequency'' = Some (IntV 120)"
    by blast
  from t tables(2) have nf: "map_of example_record ''Country_frequency'' = Some (IntV 300)"
    by blast
  from voc c n cf nf show ?thesis by (simp add: feature_def example_encoding)
qed

text \<open>
  C4. \<open>Gender_encoded\<close> is 1 when the submitted gender is the string \<open>Male\<close> and 0 for
  every other value.
\<close>

theorem gender_encoded:
  assumes "encode_features b f = Inr d"
  shows "map_of d ''Gender_encoded'' = Some (IntV (if gender f = ''Male'' then 1 else 0))"
  using assms by (auto simp: encode_features_eq split: option.splits)

lemma female_encoding:
  "\<exists>d. encode_features example_bundle (example_form\<lparr>gender := ''Female''\<rparr>) = Inr d"
  by (rule encode_features_total [of _ "the (example_frequency_maps ''city'')"
        "the (example_frequency_maps ''country'')"])
     (simp_all add: example_bundle_def example_frequency_maps_def)

theorem gender_encoded_witness:
  "feature (encode_features example_bundle example_form) ''Gender_encoded'' = Some (IntV 1) \<and>
   feature (encode_features example_bundle (example_form\<lparr>gender := ''Female''\<rparr>))
     ''Gender_encoded'' = Some (IntV 0)"
proof -
  from female_encoding obtain d
    where d: "encode_features example_bundle (example_form\<lparr>gender := ''Female''\<rparr>) = Inr d"
    by blast
  have "gender example_form = ''Male''" by (simp add: example_form_def)
  with gender_encoded [OF example_encoding]
  have male: "map_of example_record ''Gender_encoded'' = Some (IntV 1)" by simp
  from gender_encoded [OF d]
  have female: "map_of d ''Gender_encoded'' = Some (IntV 0)" by simp
  from male female show ?thesis by (simp add: feature_def example_encoding d)
qed


text \<open>
  C10. The code misses the default for an unseen ad topic that the cast of \<^verbatim>\<open>transform\<close>
  shortens to a class. The bundle \<open>narrow_bundle\<close> has no city encoder, so the form offers
  the hardcoded topics. The submitted Technology is not a class of the ad-topic encoder,
  whose array is four characters wide; \<^verbatim>\<open>transform\<close> casts it to Tech, finds that, and
  returns index 1 without raising. \<open>Ad_Topic_encoded\<close> is 1, where the comment of line 99
  says \<^verbatim>\<open>Default for unknown ad topic\<close>.
\<close>

theorem narrow_ad_topic_encoded:
  "available_options (label_encoders narrow_bundle) =
     Inr ([''New York'', ''Los Angeles'', ''Chicago''],
          [''United States'', ''Canada'', ''United Kingdom''],
          [''Technology'', ''Fashion'', ''Sports'']) \<and>
   ad_topic example_form = ''Technology'' \<and>
   ad_topic example_form \<notin> set (vocabulary (label_encoders narrow_bundle) ''ad_topic'') \<and>
   label_transform (label_encoders narrow_bundle) ''ad_topic'' (ad_topic example_form) = Inr 1 \<and>
   feature (encode_features narrow_bundle example_form) ''Ad_Topic_encoded'' = Some (IntV 1)"
proof -
  have les: "label_encoders narrow_bundle = narrow_label_encoders"
    and fms: "frequency_maps narrow_bundle = example_frequency_maps"
    by (simp_all add: narrow_bundle_def example_bundle_def)
  have options: "available_options narrow_label_encoders =
     Inr ([''New York'', ''Los Angeles'', ''Chicago''],
          [''United States'', ''Canada'', ''United Kingdom''],
          [''Technology'', ''Fashion'', ''Sports''])"
    by (simp add: available_options_def read_classes_def try_except_def bind_result_def
        getitem_dict_def narrow_label_encoders_def)
  have t: "ad_topic example_form = ''Technology''" by (simp add: example_form_def)
  have unseen: "''Technology'' \<notin> set (vocabulary narrow_label_encoders ''ad_topic'')"
    by (simp add: narrow_label_encoders_def vocabulary_eq)
  have hit: "label_transform narrow_label_encoders ''ad_topic'' ''Technology'' = Inr 1"
    by (simp add: narrow_label_encoders_def label_transform_eq encoder_table_def)
  then have enc: "feature (encode_features narrow_bundle example_form) ''Ad_Topic_encoded''
      = Some (IntV 1)"
    by (simp add: feature_def encode_features_eq fms les t label_value_def
        example_frequency_maps_def)
  from options t unseen hit enc show ?thesis by (simp add: les)
qed

text \<open>
  C2, as the code has it by design. The frequency feature does not look at the encoder
  vocabulary: it is the count the frequency table stores for the value, and 1 when the
  table has none. The encoded index of a city or country is 0 whenever the value, as
  \<^verbatim>\<open>transform\<close> looks it up (cast to the dtype of the encoder's \<^verbatim>\<open>classes_\<close>), is outside the
  vocabulary: the call raises and the block sets the default. The encoder returns a record
  whenever the bundle has the two frequency tables. Nothing is said here of a value that
  the cast shortens to a class.
\<close>

theorem unseen_category_defaults:
  assumes "frequency_maps b ''city'' = Some fc" and "frequency_maps b ''country'' = Some fn"
  shows "\<exists>d. encode_features b f = Inr d \<and>
           (cast_label (label_encoders b) ''city'' (city f)
              \<notin> set (vocabulary (label_encoders b) ''city'') \<longrightarrow>
              (\<exists>e. label_transform (label_encoders b) ''city'' (city f) = Inl e) \<and>
              map_of d ''City_encoded'' = Some (IntV 0)) \<and>
           (cast_label (label_encoders b) ''country'' (country f)
              \<notin> set (vocabulary (label_encoders b) ''country'') \<longrightarrow>
              (\<exists>e. label_transform (label_encoders b) ''country'' (country f) = Inl e) \<and>
              map_of d ''Country_encoded'' = Some (IntV 0)) \<and>
           (fc (city f) = None \<longrightarrow> map_of d ''City_frequency'' = Some (IntV 1)) \<and>
           (fn (country f) = None \<longrightarrow> map_of d ''Country_frequency'' = Some (IntV 1)) \<and>
           (\<forall>n. fc (city f) = Some n \<longrightarrow> map_of d ''City_frequency'' = Some n) \<and>
           (\<forall>n. fn (country f) = Some n \<longrightarrow> map_of d ''Country_frequency'' = Some n)"
  using assms
  by (auto simp: encode_features_eq label_value_unseen label_transform_unseen dict_get_def)

theorem unseen_category_defaults_witness:
  "city (example_form\<lparr>city := ''Los Angeles'', country := ''United Kingdom''\<rparr>)
     \<notin> set (vocabulary (label_encoders partial_bundle) ''city'') \<and>
   country (example_form\<lparr>city := ''Los Angeles'', country := ''United Kingdom''\<rparr>)
     \<notin> set (vocabulary (label_encoders partial_bundle) ''country'') \<and>
   (\<exists>d. encode_features partial_bundle
          (example_form\<lparr>city := ''Los Angeles'', country := ''United Kingdom''\<rparr>) = Inr d \<and>
        map_of d ''City_encoded'' = Some (IntV 0) \<and>
        map_of d ''Country_encoded'' = Some (IntV 0) \<and>
        map_of d ''City_frequency'' = Some (IntV 1) \<and>
        map_of d ''Country_frequency'' = Some (IntV 1))"
proof -
  let ?f = "example_form\<lparr>city := ''Los Angeles'', country := ''United Kingdom''\<rparr>"
  let ?fc = "[''Chicago'' \<mapsto> IntV 80, ''New York'' \<mapsto> IntV 120]"
  let ?fn = "[''United States'' \<mapsto> IntV 300]"
  have unseen: "city ?f \<notin> set (vocabulary (label_encoders partial_bundle) ''city'')"
      "country ?f \<notin> set (vocabulary (label_encoders partial_bundle) ''country'')"
    by (simp_all add: partial_bundle_def partial_label_encoders_def vocabulary_eq)
  have cast: "cast_label (label_encoders partial_bundle) ''city'' (city ?f)
        \<notin> set (vocabulary (label_encoders partial_bundle) ''city'')"
      "cast_label (label_encoders partial_bundle) ''country'' (country ?f)
        \<notin> set (vocabulary (label_encoders partial_bundle) ''country'')"
    by (simp_all add: partial_bundle_def partial_label_encoders_def vocabulary_eq cast_label_def)
  have tables: "frequency_maps partial_bundle ''city'' = Some ?fc"
      "frequency_maps partial_bundle ''country'' = Some ?fn"
    by (simp_all add: partial_bundle_def example_bundle_def example_frequency_maps_def)
  have absent: "?fc (city ?f) = None" "?fn (country ?f) = None"
    by simp_all
  from unseen_category_defaults [OF tables, of ?f] cast absent
  obtain d where "encode_features partial_bundle ?f = Inr d"
    "map_of d ''City_encoded'' = Some (IntV 0)" "map_of d ''Country_encoded'' = Some (IntV 0)"
    "map_of d ''City_frequency'' = Some (IntV 1)" "map_of d ''Country_frequency'' = Some (IntV 1)"
    by blast
  with unseen show ?thesis by blast
qed

text \<open>
  C2 as stated fails on the frequency feature. The bundle \<open>partial_bundle\<close> has no
  ad-topic encoder, so the form offers the hardcoded cities; the submitted New York is
  outside the vocabulary of the city encoder and is encoded as 0, but the city frequency
  table holds it, and \<open>City_frequency\<close> is the stored 120, not 1.
\<close>

theorem unseen_city_frequency_counterexample:
  "available_options (label_encoders partial_bundle) =
     Inr ([''New York'', ''Los Angeles'', ''Chicago''],
          [''United States'', ''Canada'', ''United Kingdom''],
          [''Technology'', ''Fashion'', ''Sports'']) \<and>
   city example_form = ''New York'' \<and>
   city example_form \<notin> set (vocabulary (label_encoders partial_bundle) ''city'') \<and>
   feature (encode_features partial_bundle example_form) ''City_encoded'' = Some (IntV 0) \<and>
   feature (encode_features partial_bundle example_form) ''City_frequency'' = Some (IntV 120) \<and>
   feature (encode_features partial_bundle example_form) ''City_frequency'' \<noteq> Some (IntV 1)"
proof -
  have les: "label_encoders partial_bundle = partial_label_encoders"
    and fms: "frequency_maps partial_bundle = example_frequency_maps"
    by (simp_all add: partial_bundle_def example_bundle_def)
  have options: "available_options partial_label_encoders =
     Inr ([''New York'', ''Los Angeles'', ''Chicago''],
          [''United States'', ''Canada'', ''United Kingdom''],
          [''Technology'', ''Fashion'', ''Sports''])"
    by (simp add: available_options_def read_classes_def try_except_def bind_result_def
        getitem_dict_def partial_label_encoders_def)
  have c: "city example_form = ''New York''" by (simp add: example_form_def)
  have unseen: "''New York'' \<notin> set (vocabulary partial_label_encoders ''city'')"
    by (simp add: partial_label_encoders_def vocabulary_eq)
  have "cast_label partial_label_encoders ''city'' ''New York''
      \<notin> set (vocabulary partial_label_encoders ''city'')"
    by (simp add: partial_label_encoders_def vocabulary_eq cast_label_def)
  then have zero: "label_value partial_label_encoders ''city'' ''New York'' = 0"
    by (rule label_value_unseen)
  have enc: "feature (encode_features partial_bundle example_form) ''City_encoded'' = Some (IntV 0)"
    by (simp add: feature_def encode_features_eq fms les c zero example_frequency_maps_def)
  have freq: "feature (encode_features partial_bundle example_form) ''City_frequency'' = Some (IntV 120)"
    by (simp add: feature_def encode_features_eq fms c example_frequency_maps_def dict_get_def)
  from options c unseen enc freq show ?thesis by (simp add: les)
qed

subsection \<open>Inference\<close>

lemma bind_result_Inr: "bind_result m k = Inr y \<longleftrightarrow> (\<exists>x. m = Inr x \<and> k x = Inr y)"
  by (cases m) (simp_all add: bind_result_def)

lemma getitem_list_Inr: "getitem_list xs i = Inr x \<longleftrightarrow> i < length xs \<and> x = xs ! i"
  by (auto simp: getitem_list_def)

lemma infer_Inr_iff:
  "infer b f = Inr (y, p) \<longleftrightarrow>
     (\<exists>df ys ps. feature_table b f = Inr df \<and>
        predict (model b) df = Inr ys \<and> predict_proba (model b) df = Inr ps \<and>
        (0 < length ys \<and> y = ys ! 0) \<and>
        (0 < length ps \<and> 1 < length (ps ! 0) \<and> p = ps ! 0 ! 1))"
  unfolding infer_def bind_result_Inr getitem_list_Inr by auto

subsection \<open>Presentation and the script\<close>

lemma insight_is_insight: "is_insight (insight p)"
  by (simp add: is_insight_def insight_def)

lemma insight_messages_distinct:
  "distinct [excellent_targeting, moderate_targeting, poor_targeting]"
  by (simp add: excellent_targeting_def moderate_targeting_def poor_targeting_def)

lemma not_insight:
  "\<not> is_insight (StSuccess ''Prediction completed!'')"
  "\<not> is_insight (StSuccess ''**WILL CLICK**'')"
  "\<not> is_insight (StWarning ''**WON'T CLICK**'')"
  "\<not> is_insight (StMetric l p)"
  "\<not> is_insight (StSubheader l)"
  "\<not> is_insight (StExpander l ws)"
  by (simp_all add: is_insight_def excellent_targeting_def moderate_targeting_def
      poor_targeting_def)

lemma on_submit_success:
  assumes "infer b f = Inr (prediction, probability)"
  shows "on_submit b f =
     [StSuccess ''Prediction completed!'',
      (if prediction = 1 then StSuccess ''**WILL CLICK**'' else StWarning ''**WON'T CLICK**''),
      StMetric ''Click Probability'' probability,
      StSubheader ''Insights'',
      insight probability,
      StExpander ''Feature Importance''
        (case art_feature_importance (model_artifacts b) of
           None \<Rightarrow> []
         | Some feature_importance \<Rightarrow> [StDataframe (take 10 feature_importance)])]"
  by (simp add: on_submit_def assms)

lemma fixed_infer: "infer (with_classifier (fixed_classifier y p)) example_form = Inr (y, p)"
proof -
  have t: "feature_table (with_classifier (fixed_classifier y p)) example_form =
      feature_table example_bundle example_form"
    by (rule feature_table_cong) (simp_all add: with_classifier_def)
  have m: "model (with_classifier (fixed_classifier y p)) = fixed_classifier y p"
    by (simp add: with_classifier_def)
  show ?thesis
    unfolding infer_def t m example_table
    by (simp add: bind_result_def fixed_classifier_def getitem_list_def)
qed

text \<open>
  C5. After a prediction, the page holds exactly one of the three insight messages: the
  excellent one when the probability exceeds 0.7, the moderate one when it exceeds 0.5
  but not 0.7, the poor one when it does not exceed 0.5.
\<close>

theorem insight_by_thresholds:
  assumes "infer b f = Inr (prediction, p)"
  shows "filter is_insight (on_submit b f) = [insight p] \<and>
         (0.7 < p \<longrightarrow> insight p = excellent_targeting) \<and>
         (0.5 < p \<and> p \<le> 0.7 \<longrightarrow> insight p = moderate_targeting) \<and>
         (p \<le> 0.5 \<longrightarrow> insight p = poor_targeting) \<and>
         distinct [excellent_targeting, moderate_targeting, poor_targeting]"
proof -
  have one: "filter is_insight (on_submit b f) = [insight p]"
    by (simp add: on_submit_success [OF assms] not_insight insight_is_insight)
  have tiers: "(0.7 < p \<longrightarrow> insight p = excellent_targeting) \<and>
         (0.5 < p \<and> p \<le> 0.7 \<longrightarrow> insight p = moderate_targeting) \<and>
         (p \<le> 0.5 \<longrightarrow> insight p = poor_targeting)"
    by (simp add: insight_def)
  from one tiers insight_messages_distinct show ?thesis by blast
qed

theorem insight_by_thresholds_witness:
  "filter is_insight (on_submit (with_classifier (fixed_classifier 1 0.8)) example_form)
     = [excellent_targeting] \<and>
   filter is_insight (on_submit (with_classifier (fixed_classifier 1 0.7)) example_form)
     = [moderate_targeting] \<and>
   filter is_insight (on_submit (with_classifier (fixed_classifier 0 0.5)) example_form)
     = [poor_targeting]"
proof -
  from insight_by_thresholds [OF fixed_infer, of 1 "0.8"]
  have 1: "filter is_insight (on_submit (with_classifier (fixed_classifier 1 0.8)) example_form)
     = [excellent_targeting]" by simp
  from insight_by_thresholds [OF fixed_infer, of 1 "0.7"]
  have 2: "filter is_insight (on_submit (with_classifier (fixed_classifier 1 0.7)) example_form)
     = [moderate_targeting]" by simp
  from insight_by_thresholds [OF fixed_infer, of 0 "0.5"]
  have 3: "filter is_insight (on_submit (with_classifier (fixed_classifier 0 0.5)) example_form)
     = [poor_targeting]" by simp
  from 1 2 3 show ?thesis by blast
qed



lemma load_artifacts_Inl_iff:
  "(\<exists>e. load_artifacts joblib_load = Inl e) \<longleftrightarrow>
     (\<exists>e. joblib_load = Inl e) \<or>
     (\<exists>a. joblib_load = Inr a \<and>
        (art_model a = None \<or> art_label_encoders a = None \<or>
         art_frequency_maps a = None \<or> art_feature_columns a = None))"
  by (cases joblib_load)
     (auto simp: load_artifacts_def bind_result_def getitem_artifacts_def split: option.splits)

lemma example_load: "load_artifacts (Inr example_artifacts) = Inr example_bundle"
  by (simp add: load_artifacts_def bind_result_def getitem_artifacts_def example_artifacts_def
      example_bundle_def)

text \<open>
  C7. When the load fails, because \<^verbatim>\<open>joblib.load\<close> raises or because one of the four keys
  is missing from what it returns, the run renders the error message and nothing else,
  and ends in \<^verbatim>\<open>st.stop()\<close>: no form and no prediction, whatever the form values are.
  A load that succeeds never ends so.
\<close>

theorem load_failure_halts:
  assumes "joblib_load = Inl e \<or>
           (\<exists>a. joblib_load = Inr a \<and>
              (art_model a = None \<or> art_label_encoders a = None \<or>
               art_frequency_maps a = None \<or> art_feature_columns a = None))"
  shows "(\<exists>e'. load_artifacts joblib_load = Inl e') \<and>
         script joblib_load f = ([StError load_error_message], Stopped) \<and>
         (\<forall>joblib_load' b. load_artifacts joblib_load' = Inr b \<longrightarrow>
            snd (script joblib_load' f) \<noteq> Stopped)"
proof -
  from assms have "\<exists>e'. load_artifacts joblib_load = Inl e'"
    unfolding load_artifacts_Inl_iff by blast
  then obtain e' where fails: "load_artifacts joblib_load = Inl e'" by blast
  then have halt: "script joblib_load f = ([StError load_error_message], Stopped)"
    by (simp add: script_def)
  have "snd (script joblib_load' f) \<noteq> Stopped"
    if "load_artifacts joblib_load' = Inr b" for joblib_load' b
    using that by (simp add: script_def split: sum.splits)
  with fails halt show ?thesis by blast
qed

theorem load_failure_halts_witness:
  "script (Inl (OtherError ''No such file or directory'')) example_form
     = ([StError ''Could not load model artifacts. Please check the file path.''], Stopped) \<and>
   script (Inr (example_artifacts\<lparr>art_frequency_maps := None\<rparr>)) example_form
     = ([StError ''Could not load model artifacts. Please check the file path.''], Stopped) \<and>
   snd (script (Inr example_artifacts) example_form) \<noteq> Stopped"
proof -
  have 1: "script (Inl (OtherError ''No such file or directory'')) example_form
     = ([StError load_error_message], Stopped)"
    using load_failure_halts [of "Inl (OtherError ''No such file or directory'')"
        "OtherError ''No such file or directory''" example_form]
    by blast
  let ?a = "example_artifacts\<lparr>art_frequency_maps := None\<rparr>"
  have "Inr ?a = Inl ValueError \<or>
         (\<exists>a. Inr ?a = Inr a \<and>
              (art_model a = None \<or> art_label_encoders a = None \<or>
               art_frequency_maps a = None \<or> art_feature_columns a = None))"
    by simp
  from load_failure_halts [OF this, of example_form]
  have 2: "script (Inr ?a) example_form = ([StError load_error_message], Stopped)"
    by blast
  from 1 example_load
  have 3: "snd (script (Inr example_artifacts) example_form) \<noteq> Stopped"
    using load_failure_halts [of "Inl (OtherError ''No such file or directory'')"
        "OtherError ''No such file or directory''" example_form]
    by blast
  from 1 2 3 show ?thesis by (simp add: load_error_message_def)
qed

text \<open>
  C8. When reading the classes of the city, country or ad-topic encoder raises, all three
  option lists are the hardcoded ones, the form is rendered with them, and a run that is
  not a submission renders the header and the form, nothing else, and finishes.
\<close>

theorem fallback_options:
  assumes "read_classes les ''city'' = Inl e \<or> read_classes les ''country'' = Inl e \<or>
           read_classes les ''ad_topic'' = Inl e"
  shows "available_options les =
           Inr ([''New York'', ''Los Angeles'', ''Chicago''],
                [''United States'', ''Canada'', ''United Kingdom''],
                [''Technology'', ''Fashion'', ''Sports'']) \<and>
         input_form les =
           Inr [StForm ''prediction_form''
                  (form_widgets [''New York'', ''Los Angeles'', ''Chicago'']
                     [''United States'', ''Canada'', ''United Kingdom'']
                     [''Technology'', ''Fashion'', ''Sports''])] \<and>
         (\<forall>joblib_load b f.
            load_artifacts joblib_load = Inr b \<and> label_encoders b = les \<and> \<not> submitted f \<longrightarrow>
            script joblib_load f =
              (page_header @
               [StForm ''prediction_form''
                  (form_widgets [''New York'', ''Los Angeles'', ''Chicago'']
                     [''United States'', ''Canada'', ''United Kingdom'']
                     [''Technology'', ''Fashion'', ''Sports''])],
               Finished))"
proof -
  from assms have options: "available_options les =
           Inr ([''New York'', ''Los Angeles'', ''Chicago''],
                [''United States'', ''Canada'', ''United Kingdom''],
                [''Technology'', ''Fashion'', ''Sports''])"
    by (auto simp: available_options_def try_except_def bind_result_def split: sum.splits)
  then have form: "input_form les =
           Inr [StForm ''prediction_form''
                  (form_widgets [''New York'', ''Los Angeles'', ''Chicago'']
                     [''United States'', ''Canada'', ''United Kingdom'']
                     [''Technology'', ''Fashion'', ''Sports''])]"
    by (simp add: input_form_def bind_result_def)
  have "script joblib_load f =
              (page_header @
               [StForm ''prediction_form''
                  (form_widgets [''New York'', ''Los Angeles'', ''Chicago'']
                     [''United States'', ''Canada'', ''United Kingdom'']
                     [''Technology'', ''Fashion'', ''Sports''])],
               Finished)"
    if "load_artifacts joblib_load = Inr b \<and> label_encoders b = les \<and> \<not> submitted f"
    for joblib_load b f
    using that form by (simp add: script_def)
  with options form show ?thesis by blast
qed

theorem fallback_options_witness:
  "read_classes partial_label_encoders ''ad_topic'' = Inl (KeyError ''ad_topic'') \<and>
   input_form partial_label_encoders =
     Inr [StForm ''prediction_form''
            (form_widgets [''New York'', ''Los Angeles'', ''Chicago'']
               [''United States'', ''Canada'', ''United Kingdom'']
               [''Technology'', ''Fashion'', ''Sports''])] \<and>
   script (Inr partial_artifacts) (example_form\<lparr>submitted := False\<rparr>) =
     (page_header @
      [StForm ''prediction_form''
         (form_widgets [''New York'', ''Los Angeles'', ''Chicago'']
            [''United States'', ''Canada'', ''United Kingdom'']
            [''Technology'', ''Fashion'', ''Sports''])],
      Finished)"
proof -
  have raises: "read_classes partial_label_encoders ''ad_topic'' = Inl (KeyError ''ad_topic'')"
    by (simp add: read_classes_def bind_result_def getitem_dict_def partial_label_encoders_def)
  then have "read_classes partial_label_encoders ''city'' = Inl (KeyError ''ad_topic'') \<or>
      read_classes partial_label_encoders ''country'' = Inl (KeyError ''ad_topic'') \<or>
      read_classes partial_label_encoders ''ad_topic'' = Inl (KeyError ''ad_topic'')"
    by blast
  note t = fallback_options [OF this]
  have load: "load_artifacts (Inr partial_artifacts) = Inr partial_bundle \<and>
      label_encoders partial_bundle = partial_label_encoders \<and>
      \<not> submitted (example_form\<lparr>submitted := False\<rparr>)"
    by (simp add: load_artifacts_def bind_result_def getitem_artifacts_def partial_artifacts_def
        partial_bundle_def example_artifacts_def example_bundle_def)
  from t load raises show ?thesis by blast
qed

text \<open>
  C9. Under the mappings the example states, a run on the example input is fixed by the
  bundle's column list and classifier alone. The encoder returns the record written out in
  \<open>example_record\<close>, with the stated values; the feature table is that record reindexed
  against the column list; and the inference succeeds with a label and a probability
  exactly when the classifier answers that table with them, as the first label and as
  element 1 of the first probability row. So two runs on one bundle, and runs on any two
  bundles that satisfy the mappings and share column list and classifier, give the same
  record, the same table, the same label and the same probability. The script reads no
  clock and no random source, and the classifier is a function of the table it is given.
\<close>

theorem example_run_deterministic:
  assumes "stated_mappings b"
  shows "encode_features b example_form = Inr example_record \<and>
         map_of example_record ''City_encoded'' = Some (IntV 2) \<and>
         map_of example_record ''Country_encoded'' = Some (IntV 0) \<and>
         map_of example_record ''Gender_encoded'' = Some (IntV 1) \<and>
         map_of example_record ''City_frequency'' = Some (IntV 120) \<and>
         map_of example_record ''Country_frequency'' = Some (IntV 300) \<and>
         feature_table b example_form =
           Inr (reindex (DataFrame example_record) (feature_columns b) (IntV 0)) \<and>
         (\<forall>y p. infer b example_form = Inr (y, p) \<longleftrightarrow>
            (\<exists>ys ps.
               predict (model b)
                 (reindex (DataFrame example_record) (feature_columns b) (IntV 0)) = Inr ys \<and>
               predict_proba (model b)
                 (reindex (DataFrame example_record) (feature_columns b) (IntV 0)) = Inr ps \<and>
               (0 < length ys \<and> y = ys ! 0) \<and>
               (0 < length ps \<and> 1 < length (ps ! 0) \<and> p = ps ! 0 ! 1))) \<and>
         (\<forall>b'. stated_mappings b' \<and> feature_columns b' = feature_columns b \<and> model b' = model b \<longrightarrow>
            encode_features b' example_form = encode_features b example_form \<and>
            feature_table b' example_form = feature_table b example_form \<and>
            infer b' example_form = infer b example_form)"
proof -
  have enc: "encode_features c example_form = Inr example_record" if "stated_mappings c" for c
    using that
    by (simp add: stated_mappings_def encode_features_def encode_label_def try_except_def
        bind_result_def Let_def example_form_def example_record_def)
  have table: "feature_table c example_form =
      Inr (reindex (DataFrame example_record) (feature_columns c) (IntV 0))"
    if "stated_mappings c" for c
    by (simp add: feature_table_def enc [OF that] bind_result_def Let_def)
  have answer: "infer b example_form = Inr (y, p) \<longleftrightarrow>
            (\<exists>ys ps.
               predict (model b)
                 (reindex (DataFrame example_record) (feature_columns b) (IntV 0)) = Inr ys \<and>
               predict_proba (model b)
                 (reindex (DataFrame example_record) (feature_columns b) (IntV 0)) = Inr ps \<and>
               (0 < length ys \<and> y = ys ! 0) \<and>
               (0 < length ps \<and> 1 < length (ps ! 0) \<and> p = ps ! 0 ! 1))" for y p
    unfolding infer_Inr_iff table [OF assms] by blast
  have same: "encode_features b' example_form = encode_features b example_form \<and>
            feature_table b' example_form = feature_table b example_form \<and>
            infer b' example_form = infer b example_form"
    if "stated_mappings b' \<and> feature_columns b' = feature_columns b \<and> model b' = model b" for b'
  proof -
    from that have s: "stated_mappings b'" and cols: "feature_columns b' = feature_columns b"
      and m: "model b' = model b" by blast+
    have t: "feature_table b' example_form = feature_table b example_form"
      by (simp add: table [OF s] table [OF assms] cols)
    have "infer b' example_form = infer b example_form"
      by (simp add: infer_def t m)
    with t enc [OF s] enc [OF assms] show ?thesis by simp
  qed
  have vals: "map_of example_record ''City_encoded'' = Some (IntV 2) \<and>
         map_of example_record ''Country_encoded'' = Some (IntV 0) \<and>
         map_of example_record ''Gender_encoded'' = Some (IntV 1) \<and>
         map_of example_record ''City_frequency'' = Some (IntV 120) \<and>
         map_of example_record ''Country_frequency'' = Some (IntV 300)"
    by (simp add: example_record_def)
  from enc [OF assms] vals table [OF assms] answer same show ?thesis by blast
qed

theorem example_run_deterministic_witness:
  "stated_mappings example_bundle \<and>
   stated_mappings (example_bundle\<lparr>label_encoders :=
      example_label_encoders(''city'' \<mapsto>
        \<lparr>classes = Some (UnicodeArray 8 [''Austin'', ''Boston'', ''New York''])\<rparr>)\<rparr>) \<and>
   encode_features example_bundle example_form = Inr example_record \<and>
   infer example_bundle example_form = Inr (1, 0.8) \<and>
   infer (example_bundle\<lparr>label_encoders :=
      example_label_encoders(''city'' \<mapsto>
        \<lparr>classes = Some (UnicodeArray 8 [''Austin'', ''Boston'', ''New York''])\<rparr>)\<rparr>)
     example_form = Inr (1, 0.8)"
proof -
  let ?b = "example_bundle\<lparr>label_encoders :=
      example_label_encoders(''city'' \<mapsto>
        \<lparr>classes = Some (UnicodeArray 8 [''Austin'', ''Boston'', ''New York''])\<rparr>)\<rparr>"
  let ?T = "reindex (DataFrame example_record) (feature_columns example_bundle) (IntV 0)"
  have s: "stated_mappings ?b"
    by (simp add: stated_mappings_def example_defs eval_defs frequency_get_def
        getitem_dict_def bind_result_def)
  have same: "stated_mappings ?b \<and> feature_columns ?b = feature_columns example_bundle \<and>
      model ?b = model example_bundle"
    using s by simp
  note t = example_run_deterministic [OF example_stated]
  have m: "predict (model example_bundle) ?T = Inr [1]"
      "predict_proba (model example_bundle) ?T = Inr [[0.2, 0.8]]"
    by (simp_all add: example_bundle_def example_classifier_def)
  from t have rec: "encode_features example_bundle example_form = Inr example_record"
    by blast
  from t have "infer example_bundle example_form = Inr ([1] ! 0, [[0.2, 0.8]] ! 0 ! 1) \<longleftrightarrow>
      (\<exists>ys ps. predict (model example_bundle) ?T = Inr ys \<and>
         predict_proba (model example_bundle) ?T = Inr ps \<and>
         (0 < length ys \<and> [1] ! 0 = ys ! 0) \<and>
         (0 < length ps \<and> 1 < length (ps ! 0) \<and> [[0.2, 0.8]] ! 0 ! 1 = ps ! 0 ! 1))"
    by blast
  with m have run: "infer example_bundle example_form = Inr (1, 0.8)"
    by simp
  from t same have "infer ?b example_form = infer example_bundle example_form"
    by blast
  with example_stated s rec run show ?thesis by simp
qed

end
